theory Spec2Isabelle
  imports Complex_Main
begin

section \<open>Floating-point arithmetic\<close>

text \<open>
  A Python float is a double. Its value is a real number (the handlers only meet finite
  values: the request schema rejects coordinates outside their ranges, and the operations
  below stay finite on them), but the operations on doubles round, and the functions of
  \<open>math\<close> are those of the platform. The arithmetic is therefore a parameter of the model:
  a record of the operations that the source uses. Comparisons of doubles with each other
  and with integers are exact, so they are the comparisons of the reals.
\<close>

record float_arith =
  fl_add :: "real \<Rightarrow> real \<Rightarrow> real"
  fl_sub :: "real \<Rightarrow> real \<Rightarrow> real"
  fl_mul :: "real \<Rightarrow> real \<Rightarrow> real"
  fl_div :: "real \<Rightarrow> real \<Rightarrow> real"
  fl_pow :: "real \<Rightarrow> nat \<Rightarrow> real"
  fl_radians :: "real \<Rightarrow> real"
  fl_sin :: "real \<Rightarrow> real"
  fl_cos :: "real \<Rightarrow> real"
  fl_sqrt :: "real \<Rightarrow> real"
  fl_atan2 :: "real \<Rightarrow> real \<Rightarrow> real"
  fl_round :: "real \<Rightarrow> nat \<Rightarrow> real"
  fl_float :: "real \<Rightarrow> real"

text \<open>
  \<open>fl_pow\<close> is \<open>x ** n\<close>, \<open>fl_round\<close> is \<open>round(x, ndigits)\<close>, \<open>fl_float\<close> is \<open>float(d)\<close> of a
  \<open>Decimal\<close>, and \<open>fl_sqrt\<close> is \<open>math.sqrt\<close> on its domain. \<open>math.sqrt\<close> raises \<open>ValueError\<close>
  on a negative argument.
\<close>

datatype value_error = ValueError

definition py_sqrt :: "float_arith \<Rightarrow> real \<Rightarrow> value_error + real" where
  "py_sqrt fp x = (if x < 0 then Inl ValueError else Inr (fl_sqrt fp x))"

text \<open>
  The laws of the arithmetic that the properties of the distance rest on. Negation is
  exact on doubles and rounding is symmetric about 0, so subtraction, \<open>math.radians\<close> (a
  multiplication by a constant), halving and \<open>math.sin\<close> commute with negation, squaring
  forgets the sign, and multiplication is commutative.
\<close>

definition sign_symmetric :: "float_arith \<Rightarrow> bool" where
  "sign_symmetric fp =
     ((\<forall>x y. fl_sub fp x y = - fl_sub fp y x)
      \<and> (\<forall>x. fl_radians fp (- x) = - fl_radians fp x)
      \<and> (\<forall>x. fl_div fp (- x) 2 = - fl_div fp x 2)
      \<and> (\<forall>x. fl_sin fp (- x) = - fl_sin fp x)
      \<and> (\<forall>x. fl_pow fp (- x) 2 = fl_pow fp x 2)
      \<and> (\<forall>x y. fl_mul fp x y = fl_mul fp y x))"

text \<open>The operations are exact where the exact result is 0 or 1 at the arguments 0 and 1.\<close>

definition exact_at_zero :: "float_arith \<Rightarrow> bool" where
  "exact_at_zero fp =
     ((\<forall>x. fl_sub fp x x = 0)
      \<and> fl_sub fp 1 0 = 1
      \<and> fl_add fp 0 0 = 0
      \<and> (\<forall>x. fl_mul fp x 0 = 0)
      \<and> fl_div fp 0 2 = 0
      \<and> fl_pow fp 0 2 = 0
      \<and> fl_radians fp 0 = 0
      \<and> fl_sin fp 0 = 0
      \<and> fl_sqrt fp 0 = 0
      \<and> fl_sqrt fp 1 = 1
      \<and> fl_atan2 fp 0 1 = 0
      \<and> fl_round fp 0 2 = 0
      \<and> fl_float fp 0 = 0)"

text \<open>
  The arithmetic without rounding, for sample evaluations. \<open>math.radians\<close> multiplies by
  \<open>pi / 180\<close>; \<open>math.atan2 y x\<close> is the angle of the point \<open>(x, y)\<close> in \<open>(-pi, pi]\<close>;
  \<open>round(x, ndigits)\<close> goes to the nearest multiple of \<open>10 ^ -ndigits\<close>, a tie going to the
  even neighbour.
\<close>

definition radians :: "real \<Rightarrow> real" where
  "radians x = x * (pi / 180)"

definition atan2 :: "real \<Rightarrow> real \<Rightarrow> real" where
  "atan2 y x =
     (if 0 < x then arctan (y / x)
      else if x < 0 then (if 0 \<le> y then arctan (y / x) + pi else arctan (y / x) - pi)
      else if 0 < y then pi / 2
      else if y < 0 then - (pi / 2)
      else 0)"

definition py_round :: "real \<Rightarrow> nat \<Rightarrow> real" where
  "py_round x ndigits =
     (let y = x * 10 ^ ndigits;
          f = \<lfloor>y\<rfloor>;
          r = y - of_int f
      in of_int (if r < 1 / 2 then f
                 else if 1 / 2 < r then f + 1
                 else if even f then f else f + 1) / 10 ^ ndigits)"

definition exact_arith :: float_arith where
  "exact_arith =
     \<lparr>fl_add = (+), fl_sub = (-), fl_mul = (*), fl_div = (/), fl_pow = (^),
      fl_radians = radians, fl_sin = sin, fl_cos = cos, fl_sqrt = sqrt, fl_atan2 = atan2,
      fl_round = py_round, fl_float = (\<lambda>x. x)\<rparr>"


section \<open>Distance calculator (app/core/geo.py)\<close>

text \<open>
  \<open>calculate_distance\<close>, line by line, in the arithmetic \<open>fp\<close>. The result is \<open>Inl ValueError\<close>
  when one of the two square roots raises: with rounding the haversine term \<open>a\<close> can leave
  \<open>[0, 1]\<close> (lemma \<open>haversine_range\<close> below is about the arithmetic without rounding).
\<close>

definition calculate_distance ::
  "float_arith \<Rightarrow> real \<Rightarrow> real \<Rightarrow> real \<Rightarrow> real \<Rightarrow> value_error + real" where
  "calculate_distance fp lat1 lng1 lat2 lng2 =
     (let R = 6371000;
          phi1 = fl_radians fp lat1;
          phi2 = fl_radians fp lat2;
          dphi = fl_radians fp (fl_sub fp lat2 lat1);
          dlam = fl_radians fp (fl_sub fp lng2 lng1);
          a = fl_add fp (fl_pow fp (fl_sin fp (fl_div fp dphi 2)) 2)
                (fl_mul fp (fl_mul fp (fl_cos fp phi1) (fl_cos fp phi2))
                   (fl_pow fp (fl_sin fp (fl_div fp dlam 2)) 2))
      in case py_sqrt fp a of
           Inl e \<Rightarrow> Inl e
         | Inr root_a \<Rightarrow>
             (case py_sqrt fp (fl_sub fp 1 a) of
                Inl e \<Rightarrow> Inl e
              | Inr root_1a \<Rightarrow>
                  let c = fl_mul fp 2 (fl_atan2 fp root_a root_1a);
                      distance = fl_mul fp R c
                  in Inr distance))"

text \<open>\<open>is_within_radius\<close>; an exception of \<open>calculate_distance\<close> passes through.\<close>

definition is_within_radius ::
  "float_arith \<Rightarrow> real \<Rightarrow> real \<Rightarrow> real \<Rightarrow> real \<Rightarrow> real \<Rightarrow> value_error + bool \<times> real" where
  "is_within_radius fp visitor_lat visitor_lng center_lat center_lng radius_meters =
     (case calculate_distance fp visitor_lat visitor_lng center_lat center_lng of
        Inl e \<Rightarrow> Inl e
      | Inr distance \<Rightarrow>
          let is_allowed = (distance \<le> radius_meters)
          in Inr (is_allowed, distance))"


section \<open>Data model (app/models, app/schemas)\<close>

text \<open>
  The \<open>Link\<close> row. The primary key \<open>id\<close> is the field \<open>link_id\<close> (\<open>id\<close> is the identity
  function of HOL). Nullable columns are options, \<open>DateTime\<close> columns are points on an integer
  time line, \<open>Numeric\<close> coordinates are the stored decimal numbers (\<open>float(...)\<close> of one is
  \<open>fl_float\<close>). The server-side timestamps \<open>created_at\<close> and
  \<open>updated_at\<close> are not part of the model.
\<close>

record link =
  link_id :: int
  title :: "string option"
  short_code :: string
  target_url :: string
  center_lat :: real
  center_lng :: real
  radius_meters :: int
  location_name :: "string option"
  contact_wechat :: "string option"
  expire_at :: "int option"
  max_visits :: "int option"
  created_by :: int
  is_active :: bool
  is_banned :: bool
  is_deleted :: bool
  visit_count :: int
  success_count :: int
  denied_count :: int

text \<open>The \<open>AccessLog\<close> row (its own key and \<open>accessed_at\<close> are assigned by the database).\<close>

record access_log =
  log_link_id :: int
  visitor_lat :: "real option"
  visitor_lng :: "real option"
  distance_meters :: "real option"
  access_granted :: bool
  user_agent :: "string option"
  ip_address :: "string option"

text \<open>The part of \<open>User\<close> that the link endpoints read.\<close>

record user =
  user_id :: int
  role :: string

text \<open>
  The database session: the two tables, in row order. \<open>query(...).filter(p).first()\<close> is
  \<^const>\<open>find\<close> on the table. A handler's changes reach the store at \<open>db.commit()\<close>; a handler
  that raises before its commit leaves the store as it found it (the session comes from
  \<open>get_db\<close> of app/core/database.py, which is not among the sources, and is taken to
  discard uncommitted changes).
\<close>

record db =
  links :: "link list"
  access_logs :: "access_log list"

text \<open>
  \<open>HTTPException(status_code, detail)\<close>. The detail texts of the source are Chinese string
  literals; they are given as their lists of Unicode code points.
\<close>

datatype http_exception = HTTPException (status_code: int) (detail: "nat list")

text \<open>What leaves \<open>verify_location\<close>: an \<open>HTTPException\<close> that it raises itself, or the
  \<open>ValueError\<close> of the distance calculation, which the handler does not catch.\<close>

datatype raised = Http http_exception | Unhandled value_error

definition msg_short_link_not_found :: "nat list" where
  "msg_short_link_not_found = [0x77ED, 0x94FE, 0x63A5, 0x4E0D, 0x5B58, 0x5728]"

definition msg_link_not_found :: "nat list" where
  "msg_link_not_found = [0x94FE, 0x63A5, 0x4E0D, 0x5B58, 0x5728]"

definition msg_link_disabled :: "nat list" where
  "msg_link_disabled = [0x6B64, 0x94FE, 0x63A5, 0x5DF2, 0x88AB, 0x7981, 0x7528]"

definition msg_link_banned :: "nat list" where
  "msg_link_banned =
     [0x6B64, 0x94FE, 0x63A5, 0x5DF2, 0x88AB, 0x7BA1, 0x7406, 0x5458, 0x5C01, 0x7981]"

definition msg_outside_range :: "nat list" where
  "msg_outside_range =
     [0x60A8, 0x4E0D, 0x5728, 0x5141, 0x8BB8, 0x8BBF, 0x95EE, 0x7684, 0x5730, 0x7406, 0x8303,
      0x56F4, 0x5185]"

definition msg_no_permission_update :: "nat list" where
  "msg_no_permission_update = [0x65E0, 0x6743, 0x4FEE, 0x6539, 0x6B64, 0x77ED, 0x94FE, 0x63A5]"

definition msg_banned_cannot_enable :: "nat list" where
  "msg_banned_cannot_enable =
     [0x6B64, 0x94FE, 0x63A5, 0x5DF2, 0x88AB, 0x7BA1, 0x7406, 0x5458, 0x5C01, 0x7981, 0xFF0C,
      0x65E0, 0x6CD5, 0x542F, 0x7528]"

definition msg_no_permission_delete :: "nat list" where
  "msg_no_permission_delete = [0x65E0, 0x6743, 0x5220, 0x9664, 0x6B64, 0x77ED, 0x94FE, 0x63A5]"

definition msg_no_permission_restore :: "nat list" where
  "msg_no_permission_restore = [0x65E0, 0x6743, 0x6062, 0x590D, 0x6B64, 0x77ED, 0x94FE, 0x63A5]"

definition msg_not_deleted :: "nat list" where
  "msg_not_deleted = [0x8BE5, 0x94FE, 0x63A5, 0x672A, 0x88AB, 0x5220, 0x9664]"

definition msg_code_in_use :: "nat list" where
  "msg_code_in_use =
     [0x8BE5, 0x77ED, 0x94FE, 0x63A5, 0x4EE3, 0x7801, 0x5DF2, 0x88AB, 0x4F7F, 0x7528]"

definition msg_generation_failed :: "nat list" where
  "msg_generation_failed =
     [0x751F, 0x6210, 0x77ED, 0x94FE, 0x63A5, 0x5931, 0x8D25, 0xFF0C, 0x8BF7, 0x91CD, 0x8BD5]"

text \<open>Request and response schemas.\<close>

record location_verify_request =
  latitude :: real
  longitude :: real

text \<open>What \<open>verify_location\<close> reads of the HTTP request: the user-agent header and the
  client's host, each possibly absent.\<close>

record request =
  req_user_agent :: "string option"
  req_client_host :: "string option"

record location_verify_response =
  resp_allowed :: bool
  resp_target_url :: "string option"
  resp_distance :: real
  resp_radius :: int
  resp_message :: "nat list option"
  resp_contact_wechat :: "string option"
  resp_title :: "string option"

record public_link_info =
  info_short_code :: string
  info_title :: "string option"
  info_is_active :: bool
  info_location_name :: "string option"

record link_update =
  upd_title :: "string option"
  upd_target_url :: "string option"
  upd_center_lat :: "real option"
  upd_center_lng :: "real option"
  upd_radius_meters :: "int option"
  upd_location_name :: "string option"
  upd_contact_wechat :: "string option"
  upd_is_active :: "bool option"
  upd_expire_at :: "int option"
  upd_max_visits :: "int option"

record link_create =
  new_title :: "string option"
  new_target_url :: string
  new_center_lat :: real
  new_center_lng :: real
  new_radius_meters :: int
  new_location_name :: "string option"
  new_contact_wechat :: "string option"
  new_expire_at :: "int option"
  new_max_visits :: "int option"
  new_short_code :: "string option"


section \<open>Link endpoints (app/api/links.py)\<close>

text \<open>Writing back the row that \<open>first()\<close> returned: the first row that satisfies the filter.\<close>

fun update_first :: "('a \<Rightarrow> bool) \<Rightarrow> ('a \<Rightarrow> 'a) \<Rightarrow> 'a list \<Rightarrow> 'a list" where
  "update_first P f [] = []"
| "update_first P f (x # xs) = (if P x then f x # xs else x # update_first P f xs)"

text \<open>The counter update of \<open>verify_location\<close> (lines 475 to 479).\<close>

definition count_visit :: "bool \<Rightarrow> link \<Rightarrow> link" where
  "count_visit allowed l =
     (let l1 = l\<lparr>visit_count := visit_count l + 1\<rparr>
      in if allowed then l1\<lparr>success_count := success_count l1 + 1\<rparr>
         else l1\<lparr>denied_count := denied_count l1 + 1\<rparr>)"

text \<open>\<open>verify_location\<close>. A \<open>ValueError\<close> of the distance calculation leaves the handler before
  the counters are touched and before \<open>db.commit()\<close>.\<close>

definition verify_location ::
  "float_arith \<Rightarrow> string \<Rightarrow> location_verify_request \<Rightarrow> request \<Rightarrow> db
     \<Rightarrow> (raised + location_verify_response) \<times> db" where
  "verify_location fp code location req d =
     (case find (\<lambda>l. short_code l = code) (links d) of
        None \<Rightarrow> (Inl (Http (HTTPException 404 msg_short_link_not_found)), d)
      | Some l \<Rightarrow>
          if is_deleted l then (Inl (Http (HTTPException 404 msg_short_link_not_found)), d)
          else if \<not> is_active l then
            (Inl (Http (HTTPException 403
                    (if is_banned l then msg_link_banned else msg_link_disabled))), d)
          else
            (case is_within_radius fp (latitude location) (longitude location)
                    (fl_float fp (center_lat l)) (fl_float fp (center_lng l))
                    (real_of_int (radius_meters l)) of
               Inl e \<Rightarrow> (Inl (Unhandled e), d)
             | Inr (allowed, distance) \<Rightarrow>
                 let l' = count_visit allowed l;
                     entry = \<lparr>log_link_id = link_id l',
                              visitor_lat = Some (latitude location),
                              visitor_lng = Some (longitude location),
                              distance_meters = Some (fl_round fp distance 2),
                              access_granted = allowed,
                              user_agent = req_user_agent req,
                              ip_address = req_client_host req\<rparr>;
                     d' = d\<lparr>links := update_first (\<lambda>l. short_code l = code) (\<lambda>_. l') (links d),
                            access_logs := access_logs d @ [entry]\<rparr>;
                     message = (if \<not> allowed then Some msg_outside_range else None);
                     contact = (if \<not> allowed then contact_wechat l' else None)
                 in (Inr \<lparr>resp_allowed = allowed,
                          resp_target_url = (if allowed then Some (target_url l') else None),
                          resp_distance = fl_round fp distance 2,
                          resp_radius = radius_meters l',
                          resp_message = message,
                          resp_contact_wechat = contact,
                          resp_title = title l'\<rparr>, d')))"

definition get_public_link_info :: "string \<Rightarrow> db \<Rightarrow> (http_exception + public_link_info) \<times> db" where
  "get_public_link_info code d =
     (case find (\<lambda>l. short_code l = code) (links d) of
        None \<Rightarrow> (Inl (HTTPException 404 msg_link_not_found), d)
      | Some l \<Rightarrow>
          if is_deleted l then (Inl (HTTPException 404 msg_link_not_found), d)
          else (Inr \<lparr>info_short_code = short_code l,
                     info_title = title l,
                     info_is_active = is_active l,
                     info_location_name = location_name l\<rparr>, d))"

text \<open>The idiom \<open>if link_data.x is not None: link.x = link_data.x\<close> of \<open>update_link\<close>.\<close>

definition assign_if_given :: "'a option \<Rightarrow> ('a \<Rightarrow> link \<Rightarrow> link) \<Rightarrow> link \<Rightarrow> link" where
  "assign_if_given given assign l = (case given of None \<Rightarrow> l | Some v \<Rightarrow> assign v l)"

text \<open>The field assignments of \<open>update_link\<close>, in the order of the source. The result is
  \<open>Inl\<close> when the handler raises at the \<open>is_active\<close> field.\<close>

definition update_fields :: "link_update \<Rightarrow> user \<Rightarrow> link \<Rightarrow> http_exception + link" where
  "update_fields link_data current_user l0 =
     (let l1 = assign_if_given (upd_title link_data) (\<lambda>v l. l\<lparr>title := Some v\<rparr>) l0;
          l2 = assign_if_given (upd_target_url link_data) (\<lambda>v l. l\<lparr>target_url := v\<rparr>) l1;
          l3 = assign_if_given (upd_center_lat link_data) (\<lambda>v l. l\<lparr>center_lat := v\<rparr>) l2;
          l4 = assign_if_given (upd_center_lng link_data) (\<lambda>v l. l\<lparr>center_lng := v\<rparr>) l3;
          l5 = assign_if_given (upd_radius_meters link_data) (\<lambda>v l. l\<lparr>radius_meters := v\<rparr>) l4;
          l6 = assign_if_given (upd_location_name link_data)
                 (\<lambda>v l. l\<lparr>location_name := Some v\<rparr>) l5;
          l7 = assign_if_given (upd_contact_wechat link_data)
                 (\<lambda>v l. l\<lparr>contact_wechat := Some v\<rparr>) l6;
          finish = (\<lambda>l8.
            let l9 = assign_if_given (upd_expire_at link_data) (\<lambda>v l. l\<lparr>expire_at := Some v\<rparr>) l8;
                l10 = assign_if_given (upd_max_visits link_data)
                        (\<lambda>v l. l\<lparr>max_visits := Some v\<rparr>) l9
            in Inr l10)
      in case upd_is_active link_data of
           None \<Rightarrow> finish l7
         | Some v \<Rightarrow>
             if is_banned l7 \<and> v \<and> role current_user \<noteq> ''super_admin'' then
               Inl (HTTPException 403 msg_banned_cannot_enable)
             else
               let l8 = (if role current_user = ''super_admin'' \<and> v
                         then l7\<lparr>is_banned := False\<rparr> else l7)
               in finish (l8\<lparr>is_active := v\<rparr>))"

definition update_link ::
  "int \<Rightarrow> link_update \<Rightarrow> user \<Rightarrow> db \<Rightarrow> (http_exception + link) \<times> db" where
  "update_link lid link_data current_user d =
     (case find (\<lambda>l. link_id l = lid) (links d) of
        None \<Rightarrow> (Inl (HTTPException 404 msg_short_link_not_found), d)
      | Some l \<Rightarrow>
          if is_deleted l then (Inl (HTTPException 404 msg_short_link_not_found), d)
          else if role current_user \<noteq> ''super_admin'' \<and> created_by l \<noteq> user_id current_user then
            (Inl (HTTPException 403 msg_no_permission_update), d)
          else
            (case update_fields link_data current_user l of
               Inl e \<Rightarrow> (Inl e, d)
             | Inr l' \<Rightarrow>
                 (Inr l', d\<lparr>links := update_first (\<lambda>l. link_id l = lid) (\<lambda>_. l') (links d)\<rparr>)))"

definition delete_link :: "int \<Rightarrow> user \<Rightarrow> db \<Rightarrow> (http_exception + unit) \<times> db" where
  "delete_link lid current_user d =
     (case find (\<lambda>l. link_id l = lid) (links d) of
        None \<Rightarrow> (Inl (HTTPException 404 msg_short_link_not_found), d)
      | Some l \<Rightarrow>
          if is_deleted l then (Inl (HTTPException 404 msg_short_link_not_found), d)
          else if role current_user \<noteq> ''super_admin'' \<and> created_by l \<noteq> user_id current_user then
            (Inl (HTTPException 403 msg_no_permission_delete), d)
          else
            let l' = (if role current_user = ''super_admin'' \<and> created_by l \<noteq> user_id current_user
                      then l\<lparr>is_banned := True, is_active := False\<rparr>
                      else l\<lparr>is_deleted := True, is_active := False\<rparr>)
            in (Inr (), d\<lparr>links := update_first (\<lambda>l. link_id l = lid) (\<lambda>_. l') (links d)\<rparr>))"

definition restore_link :: "int \<Rightarrow> user \<Rightarrow> db \<Rightarrow> (http_exception + link) \<times> db" where
  "restore_link lid current_user d =
     (case find (\<lambda>l. link_id l = lid) (links d) of
        None \<Rightarrow> (Inl (HTTPException 404 msg_short_link_not_found), d)
      | Some l \<Rightarrow>
          if role current_user \<noteq> ''super_admin'' \<and> created_by l \<noteq> user_id current_user then
            (Inl (HTTPException 403 msg_no_permission_restore), d)
          else if \<not> is_deleted l then (Inl (HTTPException 400 msg_not_deleted), d)
          else
            let l' = l\<lparr>is_deleted := False, is_active := True\<rparr>
            in (Inr l', d\<lparr>links := update_first (\<lambda>l. link_id l = lid) (\<lambda>_. l') (links d)\<rparr>))"

text \<open>
  \<open>create_link\<close>. The results of the successive calls of \<open>generate_short_code\<close> are the
  parameter \<open>gen\<close> (call number to code) and the key that the database assigns to the new row
  is \<open>fresh_id\<close>. The constructor call of the source passes neither \<open>expire_at\<close> nor
  \<open>max_visits\<close>; the remaining columns take their defaults.
\<close>

definition create_link ::
  "link_create \<Rightarrow> user \<Rightarrow> (nat \<Rightarrow> string) \<Rightarrow> int \<Rightarrow> db \<Rightarrow> (http_exception + link) \<times> db" where
  "create_link link_data current_user gen fresh_id d =
     (let existing = (\<lambda>c. find (\<lambda>l. short_code l = c) (links d) \<noteq> None);
          chosen =
            (case new_short_code link_data of
               Some c \<Rightarrow>
                 if c \<noteq> [] then
                   (if existing c then Inl (HTTPException 400 msg_code_in_use) else Inr c)
                 else
                   (case find (\<lambda>c. \<not> existing c) (map gen [0..<10]) of
                      Some c \<Rightarrow> Inr c
                    | None \<Rightarrow> Inl (HTTPException 500 msg_generation_failed))
             | None \<Rightarrow>
                 (case find (\<lambda>c. \<not> existing c) (map gen [0..<10]) of
                    Some c \<Rightarrow> Inr c
                  | None \<Rightarrow> Inl (HTTPException 500 msg_generation_failed)))
      in case chosen of
           Inl e \<Rightarrow> (Inl e, d)
         | Inr c \<Rightarrow>
             let new_link = \<lparr>link_id = fresh_id,
                             title = new_title link_data,
                             short_code = c,
                             target_url = new_target_url link_data,
                             center_lat = new_center_lat link_data,
                             center_lng = new_center_lng link_data,
                             radius_meters = new_radius_meters link_data,
                             location_name = new_location_name link_data,
                             contact_wechat = new_contact_wechat link_data,
                             expire_at = None,
                             max_visits = None,
                             created_by = user_id current_user,
                             is_active = True,
                             is_banned = False,
                             is_deleted = False,
                             visit_count = 0,
                             success_count = 0,
                             denied_count = 0\<rparr>
             in (Inr new_link, d\<lparr>links := links d @ [new_link]\<rparr>))"


section \<open>Runs of the endpoints\<close>

text \<open>One request to one of the endpoints above, and its effect on the store.\<close>

datatype op =
    Verify string location_verify_request request
  | PublicInfo string
  | Update int link_update user
  | Delete int user
  | Restore int user
  | Create link_create user "nat \<Rightarrow> string" int

fun step :: "float_arith \<Rightarrow> op \<Rightarrow> db \<Rightarrow> db" where
  "step fp (Verify code location req) d = snd (verify_location fp code location req d)"
| "step fp (PublicInfo code) d = snd (get_public_link_info code d)"
| "step fp (Update lid link_data u) d = snd (update_link lid link_data u d)"
| "step fp (Delete lid u) d = snd (delete_link lid u d)"
| "step fp (Restore lid u) d = snd (restore_link lid u d)"
| "step fp (Create link_data u gen fresh_id) d = snd (create_link link_data u gen fresh_id d)"

fun run :: "float_arith \<Rightarrow> op list \<Rightarrow> db \<Rightarrow> db" where
  "run fp [] d = d"
| "run fp (x # xs) d = run fp xs (step fp x d)"

text \<open>The counter invariant of a row, and the order in which counters may only grow.\<close>

definition counters_ok :: "link \<Rightarrow> bool" where
  "counters_ok l = (success_count l + denied_count l = visit_count l)"

definition counters_le :: "link \<Rightarrow> link \<Rightarrow> bool" where
  "counters_le l l' =
     (visit_count l \<le> visit_count l' \<and> success_count l \<le> success_count l'
      \<and> denied_count l \<le> denied_count l')"


text \<open>What one request does to the table of links.\<close>

definition row_step :: "link list \<Rightarrow> link list \<Rightarrow> bool" where
  "row_step xs xs' =
     (xs' = xs
      \<or> (\<exists>n. xs' = xs @ [n] \<and> counters_ok n)
      \<or> (\<exists>ys l l' zs. xs = ys @ l # zs \<and> xs' = ys @ l' # zs \<and> counters_le l l'
            \<and> (counters_ok l \<longrightarrow> counters_ok l')))"


section \<open>Sample data\<close>

text \<open>An arithmetic whose addition returns \<open>2 ^ -52\<close> too much, one unit in the last place of
  a double at 1: the haversine term of two opposite points becomes \<open>1.0000000000000002\<close>, as
  it does in doubles at some pairs of nearly opposite points.\<close>

definition overshoot_arith :: float_arith where
  "overshoot_arith = exact_arith\<lparr>fl_add := (\<lambda>x y. x + y + 1 / 2 ^ 52)\<rparr>"

text \<open>A link centred at latitude 0, longitude 0 with a radius of 100 metres, owned by the
  administrator with key 2; a visitor at the centre and one on the opposite meridian.\<close>

definition sample_link :: link where
  "sample_link =
     \<lparr>link_id = 1, title = Some ''Office'', short_code = ''abc123'',
      target_url = ''https://example.com/doc'', center_lat = 0, center_lng = 0,
      radius_meters = 100, location_name = Some ''HQ'', contact_wechat = None,
      expire_at = None, max_visits = None, created_by = 2, is_active = True,
      is_banned = False, is_deleted = False, visit_count = 0, success_count = 0,
      denied_count = 0\<rparr>"

definition sample_db :: db where
  "sample_db = \<lparr>links = [sample_link], access_logs = []\<rparr>"

definition at_centre :: location_verify_request where
  "at_centre = \<lparr>latitude = 0, longitude = 0\<rparr>"

definition far_away :: location_verify_request where
  "far_away = \<lparr>latitude = 0, longitude = 180\<rparr>"

definition sample_request :: request where
  "sample_request = \<lparr>req_user_agent = Some ''curl/8.0'', req_client_host = Some ''10.0.0.7''\<rparr>"

definition owner :: user where
  "owner = \<lparr>user_id = 2, role = ''admin''\<rparr>"

definition super_admin :: user where
  "super_admin = \<lparr>user_id = 1, role = ''super_admin''\<rparr>"

text \<open>Variants of the sample link: one whose expiry time 1000 has passed at time 2000, one
  that has used up its five visits, one with a contact, and one banned by the super
  administrator.\<close>

definition expired_link :: link where
  "expired_link = sample_link\<lparr>expire_at := Some 1000\<rparr>"

definition capped_link :: link where
  "capped_link = sample_link\<lparr>max_visits := Some 5, visit_count := 5, success_count := 5\<rparr>"

definition contact_link :: link where
  "contact_link = sample_link\<lparr>contact_wechat := Some ''wx_admin''\<rparr>"

definition banned_link :: link where
  "banned_link = sample_link\<lparr>is_banned := True, is_active := False\<rparr>"

definition no_update :: link_update where
  "no_update =
     \<lparr>upd_title = None, upd_target_url = None, upd_center_lat = None, upd_center_lng = None,
      upd_radius_meters = None, upd_location_name = None, upd_contact_wechat = None,
      upd_is_active = None, upd_expire_at = None, upd_max_visits = None\<rparr>"


definition enable :: link_update where
  "enable = no_update\<lparr>upd_is_active := Some True\<rparr>"

text \<open>The super administrator bans the owner's link, the owner deletes it and restores it.\<close>

definition ban_delete_restore :: "op list" where
  "ban_delete_restore = [Delete 1 super_admin, Delete 1 owner, Restore 1 owner]"

text \<open>An admitted visit, a denied visit, and a deletion and restoration by the owner.\<close>

definition sample_ops :: "op list" where
  "sample_ops =
     [Verify ''abc123'' at_centre sample_request, Verify ''abc123'' far_away sample_request,
      Delete 1 owner, Restore 1 owner]"

section \<open>Distance calculator: properties\<close>

lemma sign_symmetric_exact_arith: "sign_symmetric exact_arith"
  by (simp add: sign_symmetric_def exact_arith_def radians_def)

lemma exact_at_zero_exact_arith: "exact_at_zero exact_arith"
  by (simp add: exact_at_zero_def exact_arith_def radians_def atan2_def py_round_def)

lemma sin_half_sq: "(sin (x / 2))\<^sup>2 = (1 - cos x) / (2::real)"
  using cos_double_sin [of "x / 2"] by simp

text \<open>Without rounding the haversine term \<open>a\<close> lies in \<open>[0, 1]\<close>, so neither square root of
  \<open>calculate_distance\<close> raises in \<open>exact_arith\<close>.\<close>

lemma haversine_range:
  fixes lat1 lat2 lng1 lng2 :: real
  defines "a \<equiv> (sin (radians (lat2 - lat1) / 2))\<^sup>2
                 + cos (radians lat1) * cos (radians lat2) * (sin (radians (lng2 - lng1) / 2))\<^sup>2"
  shows "0 \<le> a \<and> a \<le> 1"
proof -
  define s where "s = (sin (radians (lng2 - lng1) / 2))\<^sup>2"
  define u where "u = cos (radians lat1 - radians lat2)"
  define v where "v = cos (radians lat1 + radians lat2)"
  have s: "0 \<le> s" "s \<le> 1" by (simp_all add: s_def abs_square_le_1)
  have u: "- 1 \<le> u" "u \<le> 1" by (simp_all add: u_def)
  have v: "- 1 \<le> v" "v \<le> 1" by (simp_all add: v_def)
  have "radians (lat2 - lat1) = - (radians lat1 - radians lat2)"
    by (simp add: radians_def field_simps)
  then have "cos (radians (lat2 - lat1)) = u"
    unfolding u_def by (simp only: cos_minus)
  then have a: "a = (1 - u) / 2 + (u + v) / 2 * s"
    by (simp add: a_def sin_half_sq cos_times_cos s_def u_def v_def)
  have 1: "(1 - s) * u \<le> (1 - s) * 1" "(1 - s) * (- 1) \<le> (1 - s) * u"
    using s u by (intro mult_left_mono; simp)+
  have 2: "s * v \<le> s * 1" "s * (- 1) \<le> s * v"
    using s v by (intro mult_left_mono; simp)+
  have "a = (1 - (1 - s) * u + s * v) / 2"
    unfolding a by (simp add: field_simps)
  with 1 2 show ?thesis by simp
qed

lemma calculate_distance_exact_arith_returns:
  "\<exists>distance. calculate_distance exact_arith lat1 lng1 lat2 lng2 = Inr distance"
  using haversine_range [of lat2 lat1 lng2 lng1]
  by (simp add: calculate_distance_def py_sqrt_def exact_arith_def Let_def)

lemma calculate_distance_same_point:
  assumes "exact_at_zero fp"
  shows "calculate_distance fp lat lng lat lng = Inr 0"
  using assms by (simp add: exact_at_zero_def calculate_distance_def py_sqrt_def Let_def)

lemma calculate_distance_opposite_meridian:
  "calculate_distance exact_arith 0 180 0 0 = Inr (6371000 * pi)"
  by (simp add: calculate_distance_def py_sqrt_def exact_arith_def atan2_def radians_def)

lemma calculate_distance_overshoot:
  "calculate_distance overshoot_arith 0 180 0 0 = Inl ValueError"
  by (simp add: calculate_distance_def py_sqrt_def overshoot_arith_def exact_arith_def radians_def)

lemma haversine_term_symmetric:
  assumes "sign_symmetric fp"
  shows "fl_pow fp (fl_sin fp (fl_div fp (fl_radians fp (fl_sub fp x y)) 2)) 2
       = fl_pow fp (fl_sin fp (fl_div fp (fl_radians fp (fl_sub fp y x)) 2)) 2"
proof -
  from assms have sub: "fl_sub fp x y = - fl_sub fp y x"
    and rad: "\<And>z. fl_radians fp (- z) = - fl_radians fp z"
    and half: "\<And>z. fl_div fp (- z) 2 = - fl_div fp z 2"
    and sin: "\<And>z. fl_sin fp (- z) = - fl_sin fp z"
    and sq: "\<And>z. fl_pow fp (- z) 2 = fl_pow fp z 2"
    unfolding sign_symmetric_def by blast+
  show ?thesis by (simp only: sub rad half sin sq)
qed

text \<open>
  C8: in an arithmetic with the sign symmetries of doubles, \<open>calculate_distance\<close> has the
  same outcome (the same distance, or \<open>ValueError\<close> both times) whichever of the two points
  comes first; and in an arithmetic that is exact at 0 and 1, the distance from a point to
  itself is returned and is 0.
\<close>

theorem calculate_distance_symmetric_and_zero:
  "(sign_symmetric fp \<longrightarrow>
      calculate_distance fp latA lngA latB lngB = calculate_distance fp latB lngB latA lngA)
   \<and> (exact_at_zero fp \<longrightarrow> calculate_distance fp latA lngA latA lngA = Inr 0)"
proof (intro conjI impI)
  assume sym: "sign_symmetric fp"
  then have comm: "\<And>x y. fl_mul fp x y = fl_mul fp y x"
    unfolding sign_symmetric_def by blast
  show "calculate_distance fp latA lngA latB lngB = calculate_distance fp latB lngB latA lngA"
    unfolding calculate_distance_def Let_def
    by (simp only: haversine_term_symmetric [OF sym, of latB latA]
          haversine_term_symmetric [OF sym, of lngB lngA]
          comm [of "fl_cos fp (fl_radians fp latA)" "fl_cos fp (fl_radians fp latB)"])
next
  assume "exact_at_zero fp"
  then show "calculate_distance fp latA lngA latA lngA = Inr 0"
    by (rule calculate_distance_same_point)
qed

theorem calculate_distance_symmetric_and_zero_witness:
  "calculate_distance exact_arith 0 180 0 0 = calculate_distance exact_arith 0 0 0 180
   \<and> calculate_distance exact_arith 0 0 0 180 = Inr (6371000 * pi)
   \<and> calculate_distance exact_arith 0 180 0 180 = Inr 0"
proof -
  note inst = calculate_distance_symmetric_and_zero [of exact_arith 0 180 0 0]
  from inst sign_symmetric_exact_arith
  have 1: "calculate_distance exact_arith 0 180 0 0 = calculate_distance exact_arith 0 0 0 180"
    by blast
  from inst exact_at_zero_exact_arith
  have 2: "calculate_distance exact_arith 0 180 0 180 = Inr 0" by blast
  from 1 2 calculate_distance_opposite_meridian show ?thesis by simp
qed

section \<open>Evaluation helpers\<close>

lemma far_exceeds: "\<not> 6371000 * pi \<le> (100::real)"
  using pi_ge_two by simp

lemma py_round_zero: "py_round 0 n = 0"
  by (simp add: py_round_def)

lemma exact_arith_conversions:
  "fl_float exact_arith x = x" "fl_round exact_arith x n = py_round x n"
  by (simp_all add: exact_arith_def)

lemma is_within_radius_same_point:
  assumes "exact_at_zero fp" and "0 \<le> r"
  shows "is_within_radius fp lat lng lat lng r = Inr (True, 0)"
  using assms(2) by (simp add: is_within_radius_def calculate_distance_same_point [OF assms(1)])

lemma is_within_radius_opposite_meridian:
  "is_within_radius exact_arith 0 180 0 0 100 = Inr (False, 6371000 * pi)"
  by (simp add: is_within_radius_def calculate_distance_opposite_meridian far_exceeds)

section \<open>Table lookups and write-backs\<close>

lemma find_None_update_first: "find P xs = None \<Longrightarrow> update_first P f xs = xs"
  by (induction xs) (auto split: if_splits)

lemma find_Some_split:
  "find P xs = Some x \<Longrightarrow>
     \<exists>ys zs. xs = ys @ x # zs \<and> update_first P f xs = ys @ f x # zs \<and> P x"
proof (induction xs)
  case Nil
  then show ?case by simp
next
  case (Cons y xs)
  show ?case
  proof (cases "P y")
    case True
    with Cons.prems have "y = x" by simp
    with True have "y # xs = [] @ x # xs \<and> update_first P f (y # xs) = [] @ f x # xs \<and> P x"
      by simp
    then show ?thesis by blast
  next
    case False
    with Cons.prems have "find P xs = Some x" by simp
    from Cons.IH [OF this] obtain ys zs where
      "xs = ys @ x # zs" "update_first P f xs = ys @ f x # zs" "P x" by blast
    with False have "y # xs = (y # ys) @ x # zs \<and> update_first P f (y # xs) = (y # ys) @ f x # zs \<and> P x"
      by simp
    then show ?thesis by blast
  qed
qed

lemma find_update_first:
  "find P xs = Some x \<Longrightarrow> P (f x) \<Longrightarrow> find P (update_first P f xs) = Some (f x)"
  by (induction xs) (auto split: if_splits)

lemma find_distinct_key:
  "distinct (map key xs) \<Longrightarrow> x \<in> set xs \<Longrightarrow> find (\<lambda>y. key y = key x) xs = Some x"
  by (induction xs) (auto split: if_splits)

lemma find_all_deleted:
  "\<forall>x\<in>set xs. P x \<longrightarrow> Q x \<Longrightarrow> find P xs = None \<or> (\<exists>x. find P xs = Some x \<and> Q x)"
  by (induction xs) (auto split: if_splits)

section \<open>Geofence verdict\<close>

text \<open>
  C5: whenever \<open>calculate_distance\<close> returns a distance, the verdict of \<open>is_within_radius\<close> is
  exactly \<open>distance \<le> radius_meters\<close> and that distance is returned with it: a visitor whose
  distance equals the radius is admitted, one whose distance exceeds it is denied. When
  \<open>calculate_distance\<close> raises, \<open>is_within_radius\<close> raises the same exception and there is no
  verdict.
\<close>

theorem is_within_radius_verdict:
  "(calculate_distance fp vlat vlng clat clng = Inr distance \<longrightarrow>
      is_within_radius fp vlat vlng clat clng r = Inr (distance \<le> r, distance)
      \<and> (distance = r \<longrightarrow> is_within_radius fp vlat vlng clat clng r = Inr (True, distance))
      \<and> (r < distance \<longrightarrow> is_within_radius fp vlat vlng clat clng r = Inr (False, distance)))
   \<and> (calculate_distance fp vlat vlng clat clng = Inl e \<longrightarrow>
        is_within_radius fp vlat vlng clat clng r = Inl e)"
  by (simp add: is_within_radius_def Let_def)

theorem is_within_radius_verdict_witness:
  "calculate_distance exact_arith 0 0 0 0 = Inr 0
   \<and> is_within_radius exact_arith 0 0 0 0 0 = Inr (True, 0)
   \<and> calculate_distance exact_arith 0 180 0 0 = Inr (6371000 * pi)
   \<and> 100 < 6371000 * pi
   \<and> is_within_radius exact_arith 0 180 0 0 100 = Inr (False, 6371000 * pi)
   \<and> calculate_distance overshoot_arith 0 180 0 0 = Inl ValueError
   \<and> is_within_radius overshoot_arith 0 180 0 0 100 = Inl ValueError"
proof -
  have a: "calculate_distance exact_arith 0 0 0 0 = Inr 0"
    using exact_at_zero_exact_arith by (rule calculate_distance_same_point)
  have b: "calculate_distance exact_arith 0 180 0 0 = Inr (6371000 * pi)"
    by (rule calculate_distance_opposite_meridian)
  have b': "(100::real) < 6371000 * pi" using pi_ge_two by simp
  have c: "calculate_distance overshoot_arith 0 180 0 0 = Inl ValueError"
    by (rule calculate_distance_overshoot)
  from is_within_radius_verdict [of exact_arith 0 0 0 0 0 0] a
  have 1: "is_within_radius exact_arith 0 0 0 0 0 = Inr (True, 0)" by blast
  from is_within_radius_verdict [of exact_arith 0 180 0 0 "6371000 * pi" 100] b b'
  have 2: "is_within_radius exact_arith 0 180 0 0 100 = Inr (False, 6371000 * pi)" by blast
  from is_within_radius_verdict [of overshoot_arith 0 180 0 0 _ 100 ValueError] c
  have 3: "is_within_radius overshoot_arith 0 180 0 0 100 = Inl ValueError" by blast
  from a b b' c 1 2 3 show ?thesis by blast
qed

section \<open>Deleted links and unknown short codes\<close>

lemma verify_location_not_found:
  assumes "\<forall>l\<in>set (links d). short_code l = code \<longrightarrow> is_deleted l"
  shows "verify_location fp code loc req d = (Inl (Http (HTTPException 404 msg_short_link_not_found)), d)"
  using find_all_deleted [OF assms]
  by (auto simp: verify_location_def)

lemma get_public_link_info_not_found:
  assumes "\<forall>l\<in>set (links d). short_code l = code \<longrightarrow> is_deleted l"
  shows "get_public_link_info code d = (Inl (HTTPException 404 msg_link_not_found), d)"
  using find_all_deleted [OF assms]
  by (auto simp: get_public_link_info_def)

text \<open>
  C6: \<open>verify_location\<close> on the short code of a deleted link raises the same exception
  (status 404, same detail) as on a short code that no row carries, and the store is left as
  it was; \<open>get_public_link_info\<close> does not tell the two apart either. Short codes are unique
  in the table (the \<open>unique\<close> constraint of the column).
\<close>

theorem deleted_link_as_missing:
  assumes "distinct (map short_code (links d1))"
      and "l \<in> set (links d1)" and "short_code l = code1" and "is_deleted l"
      and "\<forall>l'\<in>set (links d2). short_code l' \<noteq> code2"
  shows "verify_location fp code1 loc1 req1 d1 = (Inl (Http (HTTPException 404 msg_short_link_not_found)), d1)
       \<and> verify_location fp code2 loc2 req2 d2 = (Inl (Http (HTTPException 404 msg_short_link_not_found)), d2)
       \<and> fst (verify_location fp code1 loc1 req1 d1) = fst (verify_location fp code2 loc2 req2 d2)
       \<and> fst (get_public_link_info code1 d1) = fst (get_public_link_info code2 d2)"
proof -
  from assms(1,2) have "find (\<lambda>y. short_code y = short_code l) (links d1) = Some l"
    by (rule find_distinct_key)
  with assms(3) have f1: "find (\<lambda>y. short_code y = code1) (links d1) = Some l" by simp
  have v1: "verify_location fp code1 loc1 req1 d1 = (Inl (Http (HTTPException 404 msg_short_link_not_found)), d1)"
    using f1 assms(4) by (simp add: verify_location_def)
  have p1: "get_public_link_info code1 d1 = (Inl (HTTPException 404 msg_link_not_found), d1)"
    using f1 assms(4) by (simp add: get_public_link_info_def)
  from assms(5) have none: "\<forall>l'\<in>set (links d2). short_code l' = code2 \<longrightarrow> is_deleted l'" by blast
  have v2: "verify_location fp code2 loc2 req2 d2 = (Inl (Http (HTTPException 404 msg_short_link_not_found)), d2)"
    using none by (rule verify_location_not_found)
  have p2: "get_public_link_info code2 d2 = (Inl (HTTPException 404 msg_link_not_found), d2)"
    using none by (rule get_public_link_info_not_found)
  from v1 v2 p1 p2 show ?thesis by simp
qed

theorem deleted_link_as_missing_witness:
  "verify_location exact_arith ''abc123'' at_centre sample_request \<lparr>links = [sample_link\<lparr>is_deleted := True\<rparr>], access_logs = []\<rparr>
     = (Inl (Http (HTTPException 404 msg_short_link_not_found)), \<lparr>links = [sample_link\<lparr>is_deleted := True\<rparr>], access_logs = []\<rparr>)
   \<and> verify_location exact_arith ''zzz999'' far_away sample_request sample_db
     = (Inl (Http (HTTPException 404 msg_short_link_not_found)), sample_db)"
proof -
  let ?d1 = "\<lparr>links = [sample_link\<lparr>is_deleted := True\<rparr>], access_logs = []\<rparr>"
  have 1: "distinct (map short_code (links ?d1))" by simp
  have 2: "sample_link\<lparr>is_deleted := True\<rparr> \<in> set (links ?d1)" by simp
  have 3: "short_code (sample_link\<lparr>is_deleted := True\<rparr>) = ''abc123''" by (simp add: sample_link_def)
  have 4: "is_deleted (sample_link\<lparr>is_deleted := True\<rparr>)" by simp
  have 5: "\<forall>l'\<in>set (links sample_db). short_code l' \<noteq> ''zzz999''"
    by (simp add: sample_db_def sample_link_def)
  from deleted_link_as_missing [OF 1 2 3 4 5, of exact_arith at_centre sample_request far_away sample_request]
  show ?thesis by blast
qed

section \<open>Public link information\<close>

text \<open>
  C9: \<open>get_public_link_info\<close> never changes the store; for the short code of a link that is
  not deleted it returns that link's short code, title, active flag and location name, and
  when every row with the short code is deleted (or there is none) it raises 404. It takes no
  location. Short codes are unique in the table.
\<close>

theorem get_public_link_info_result:
  assumes "distinct (map short_code (links d))"
  shows "snd (get_public_link_info code d) = d
       \<and> (\<forall>l\<in>set (links d). short_code l = code \<and> \<not> is_deleted l \<longrightarrow>
            fst (get_public_link_info code d)
              = Inr \<lparr>info_short_code = short_code l, info_title = title l,
                     info_is_active = is_active l, info_location_name = location_name l\<rparr>)
       \<and> ((\<forall>l\<in>set (links d). short_code l = code \<longrightarrow> is_deleted l) \<longrightarrow>
            fst (get_public_link_info code d) = Inl (HTTPException 404 msg_link_not_found))"
proof (intro conjI ballI impI)
  show "snd (get_public_link_info code d) = d"
    by (simp add: get_public_link_info_def split: option.splits)
next
  fix l assume l: "l \<in> set (links d)" and "short_code l = code \<and> \<not> is_deleted l"
  then have c: "short_code l = code" and nd: "\<not> is_deleted l" by simp_all
  from assms l have "find (\<lambda>y. short_code y = short_code l) (links d) = Some l"
    by (rule find_distinct_key)
  with c have "find (\<lambda>y. short_code y = code) (links d) = Some l" by simp
  with nd c show "fst (get_public_link_info code d)
              = Inr \<lparr>info_short_code = short_code l, info_title = title l,
                     info_is_active = is_active l, info_location_name = location_name l\<rparr>"
    by (simp add: get_public_link_info_def)
next
  assume "\<forall>l\<in>set (links d). short_code l = code \<longrightarrow> is_deleted l"
  then show "fst (get_public_link_info code d) = Inl (HTTPException 404 msg_link_not_found)"
    by (simp add: get_public_link_info_not_found)
qed

theorem get_public_link_info_result_witness:
  "get_public_link_info ''abc123'' sample_db
     = (Inr \<lparr>info_short_code = ''abc123'', info_title = Some ''Office'',
             info_is_active = True, info_location_name = Some ''HQ''\<rparr>, sample_db)
   \<and> get_public_link_info ''zzz999'' sample_db
     = (Inl (HTTPException 404 msg_link_not_found), sample_db)"
proof -
  have d: "distinct (map short_code (links sample_db))" by (simp add: sample_db_def)
  have m: "sample_link \<in> set (links sample_db)" by (simp add: sample_db_def)
  have k: "short_code sample_link = ''abc123'' \<and> \<not> is_deleted sample_link"
    by (simp add: sample_link_def)
  have n: "\<forall>l\<in>set (links sample_db). short_code l = ''zzz999'' \<longrightarrow> is_deleted l"
    by (simp add: sample_db_def sample_link_def)
  from get_public_link_info_result [OF d, of "''abc123''"] m k
  have a: "snd (get_public_link_info ''abc123'' sample_db) = sample_db"
    and b: "fst (get_public_link_info ''abc123'' sample_db)
              = Inr \<lparr>info_short_code = short_code sample_link, info_title = title sample_link,
                     info_is_active = is_active sample_link,
                     info_location_name = location_name sample_link\<rparr>"
    by blast+
  from get_public_link_info_result [OF d, of "''zzz999''"] n
  have a': "snd (get_public_link_info ''zzz999'' sample_db) = sample_db"
    and b': "fst (get_public_link_info ''zzz999'' sample_db) = Inl (HTTPException 404 msg_link_not_found)"
    by blast+
  from a b a' b' show ?thesis
    by (simp add: prod_eq_iff sample_link_def)
qed

section \<open>Fields of the verification response\<close>

lemma verify_location_far_away_contact:
  "verify_location exact_arith ''abc123'' far_away sample_request \<lparr>links = [contact_link], access_logs = []\<rparr> =
  (Inr \<lparr>resp_allowed = False, resp_target_url = None,
        resp_distance = py_round (6371000 * pi) 2, resp_radius = 100,
        resp_message = Some msg_outside_range,
        resp_contact_wechat = Some ''wx_admin'', resp_title = Some ''Office''\<rparr>,
   \<lparr>links = [contact_link\<lparr>visit_count := 1, denied_count := 1\<rparr>],
    access_logs = [\<lparr>log_link_id = 1, visitor_lat = Some 0, visitor_lng = Some 180,
                    distance_meters = Some (py_round (6371000 * pi) 2), access_granted = False,
                    user_agent = Some ''curl/8.0'', ip_address = Some ''10.0.0.7''\<rparr>]\<rparr>)"
  by (simp add: verify_location_def contact_link_def sample_link_def far_away_def sample_request_def
      exact_arith_conversions is_within_radius_opposite_meridian count_visit_def Let_def)

text \<open>
  C7, as stated, fails for the message: a visitor outside the radius of a link that has no
  contact gets a response whose message is present.
\<close>

theorem verify_location_message_without_contact:
  "links sample_db = [sample_link] \<and> short_code sample_link = ''abc123''
   \<and> contact_wechat sample_link = None
   \<and> map_sum id resp_allowed
        (fst (verify_location exact_arith ''abc123'' far_away sample_request sample_db)) = Inr False
   \<and> map_sum id resp_message
        (fst (verify_location exact_arith ''abc123'' far_away sample_request sample_db))
       = Inr (Some msg_outside_range)"
  by (simp add: verify_location_def sample_db_def sample_link_def far_away_def sample_request_def
      exact_arith_conversions is_within_radius_opposite_meridian count_visit_def Let_def)

lemma count_visit_fields:
  "short_code (count_visit a l) = short_code l"
  "target_url (count_visit a l) = target_url l"
  "contact_wechat (count_visit a l) = contact_wechat l"
  "title (count_visit a l) = title l"
  "radius_meters (count_visit a l) = radius_meters l"
  "link_id (count_visit a l) = link_id l"
  by (simp_all add: count_visit_def Let_def)

lemma count_visit_counters:
  "visit_count (count_visit a l) = visit_count l + 1"
  "success_count (count_visit a l) = success_count l + (if a then 1 else 0)"
  "denied_count (count_visit a l) = denied_count l + (if a then 0 else 1)"
  by (simp_all add: count_visit_def Let_def)

lemma verify_location_Inr:
  assumes "verify_location fp code location req d = (Inr resp, d')"
  obtains l distance where "find (\<lambda>l. short_code l = code) (links d) = Some l"
    and "\<not> is_deleted l" and "is_active l"
    and "calculate_distance fp (latitude location) (longitude location)
           (fl_float fp (center_lat l)) (fl_float fp (center_lng l)) = Inr distance"
    and "resp_allowed resp = (distance \<le> real_of_int (radius_meters l))"
    and "resp_target_url resp = (if resp_allowed resp then Some (target_url l) else None)"
    and "resp_message resp = (if resp_allowed resp then None else Some msg_outside_range)"
    and "resp_contact_wechat resp = (if resp_allowed resp then None else contact_wechat l)"
    and "links d' = update_first (\<lambda>l. short_code l = code)
                      (\<lambda>_. count_visit (resp_allowed resp) l) (links d)"
    and "length (access_logs d') = length (access_logs d) + 1"
  using assms
  by (auto simp: verify_location_def is_within_radius_def Let_def count_visit_fields
           split: option.splits if_splits sum.splits)

lemma verify_location_ValueError:
  assumes "find (\<lambda>l. short_code l = code) (links d) = Some l"
    and "\<not> is_deleted l" and "is_active l"
    and "calculate_distance fp (latitude location) (longitude location)
           (fl_float fp (center_lat l)) (fl_float fp (center_lng l)) = Inl e"
  shows "verify_location fp code location req d = (Inl (Unhandled e), d)"
  using assms by (simp add: verify_location_def is_within_radius_def)

text \<open>
  C7, amended: in every response of \<open>verify_location\<close> the target URL is present exactly
  when access is allowed, the message is present exactly when access is denied, and the
  contact is present exactly when access is denied and the link has a contact.
\<close>

theorem verify_location_response_fields:
  assumes "verify_location fp code location req d = (Inr resp, d')"
  shows "\<exists>l. find (\<lambda>l. short_code l = code) (links d) = Some l
       \<and> (resp_target_url resp \<noteq> None) = resp_allowed resp
       \<and> (resp_message resp \<noteq> None) = (\<not> resp_allowed resp)
       \<and> (resp_contact_wechat resp \<noteq> None) = (\<not> resp_allowed resp \<and> contact_wechat l \<noteq> None)"
  using assms by (rule verify_location_Inr) auto

theorem verify_location_response_fields_witness:
  "(\<exists>l. find (\<lambda>l. short_code l = ''abc123'') [contact_link] = Some l \<and> contact_wechat l \<noteq> None)
   \<and> map_sum id resp_allowed
        (fst (verify_location exact_arith ''abc123'' far_away sample_request
                \<lparr>links = [contact_link], access_logs = []\<rparr>)) = Inr False
   \<and> map_sum id resp_contact_wechat
        (fst (verify_location exact_arith ''abc123'' far_away sample_request
                \<lparr>links = [contact_link], access_logs = []\<rparr>)) = Inr (Some ''wx_admin'')"
proof -
  note v = verify_location_far_away_contact
  from verify_location_response_fields [OF v]
  have "\<exists>l. find (\<lambda>l. short_code l = ''abc123'') [contact_link] = Some l \<and> contact_wechat l \<noteq> None"
    by auto
  then show ?thesis by (simp add: v)
qed

section \<open>Enabling a link through update_link\<close>

lemma assign_if_given_keeps:
  assumes "\<And>v l. is_banned (assign v l) = is_banned l"
      and "\<And>v l. is_active (assign v l) = is_active l"
      and "\<And>v l. visit_count (assign v l) = visit_count l"
      and "\<And>v l. success_count (assign v l) = success_count l"
      and "\<And>v l. denied_count (assign v l) = denied_count l"
      and "\<And>v l. link_id (assign v l) = link_id l"
  shows "is_banned (assign_if_given given assign l) = is_banned l"
    and "is_active (assign_if_given given assign l) = is_active l"
    and "visit_count (assign_if_given given assign l) = visit_count l"
    and "success_count (assign_if_given given assign l) = success_count l"
    and "denied_count (assign_if_given given assign l) = denied_count l"
    and "link_id (assign_if_given given assign l) = link_id l"
  using assms by (cases given; simp add: assign_if_given_def)+

lemma update_fields_Inr:
  assumes "update_fields link_data u l = Inr l'"
  shows "visit_count l' = visit_count l" and "success_count l' = success_count l"
    and "denied_count l' = denied_count l" and "link_id l' = link_id l"
    and "upd_is_active link_data = Some True \<Longrightarrow> is_active l'"
    and "upd_is_active link_data = Some True \<Longrightarrow> role u = ''super_admin'' \<Longrightarrow> \<not> is_banned l'"
  using assms
  by (auto simp: update_fields_def Let_def assign_if_given_keeps split: option.splits if_splits)

lemma update_fields_super_admin:
  assumes "role u = ''super_admin''"
  shows "\<exists>l'. update_fields link_data u l = Inr l'"
  using assms by (simp add: update_fields_def Let_def split: option.splits)

lemma update_fields_banned:
  assumes "role u \<noteq> ''super_admin''" and "is_banned l" and "upd_is_active link_data = Some True"
  shows "update_fields link_data u l = Inl (HTTPException 403 msg_banned_cannot_enable)"
  using assms by (simp add: update_fields_def Let_def assign_if_given_keeps)

text \<open>
  C10: for a link that exists and is not deleted, and an update with \<open>is_active = True\<close>: the
  super administrator's update succeeds and the stored link is active and no longer banned;
  an update by anyone else on a banned link raises 403 and leaves the store unchanged (for
  the owner, with the detail that a banned link cannot be enabled).
\<close>

theorem update_link_enable:
  assumes "find (\<lambda>l. link_id l = lid) (links d) = Some l" and "\<not> is_deleted l"
      and "upd_is_active link_data = Some True"
  shows "(role u = ''super_admin'' \<longrightarrow>
            (\<exists>l'. update_link lid link_data u d
                    = (Inr l', d\<lparr>links := update_first (\<lambda>l. link_id l = lid) (\<lambda>_. l') (links d)\<rparr>)
                 \<and> find (\<lambda>l. link_id l = lid) (links (snd (update_link lid link_data u d))) = Some l'
                 \<and> \<not> is_banned l' \<and> is_active l'))
       \<and> (role u \<noteq> ''super_admin'' \<and> is_banned l \<longrightarrow>
            (\<exists>e. update_link lid link_data u d = (Inl e, d) \<and> status_code e = 403))
       \<and> (role u \<noteq> ''super_admin'' \<and> is_banned l \<and> created_by l = user_id u \<longrightarrow>
            update_link lid link_data u d = (Inl (HTTPException 403 msg_banned_cannot_enable), d))"
proof (intro conjI impI)
  assume su: "role u = ''super_admin''"
  from update_fields_super_admin [OF su] obtain l' where l': "update_fields link_data u l = Inr l'"
    by blast
  have res: "update_link lid link_data u d
      = (Inr l', d\<lparr>links := update_first (\<lambda>l. link_id l = lid) (\<lambda>_. l') (links d)\<rparr>)"
    using assms(1,2) su l' by (simp add: update_link_def)
  from update_fields_Inr(4) [OF l'] find_Some_split [OF assms(1)] have "link_id l' = lid" by auto
  with assms(1) have "find (\<lambda>l. link_id l = lid) (update_first (\<lambda>l. link_id l = lid) (\<lambda>_. l') (links d)) = Some l'"
    by (simp add: find_update_first)
  with res update_fields_Inr(5,6) [OF l' assms(3)] su
  show "\<exists>l'. update_link lid link_data u d
                    = (Inr l', d\<lparr>links := update_first (\<lambda>l. link_id l = lid) (\<lambda>_. l') (links d)\<rparr>)
                 \<and> find (\<lambda>l. link_id l = lid) (links (snd (update_link lid link_data u d))) = Some l'
                 \<and> \<not> is_banned l' \<and> is_active l'"
    by auto
next
  assume a: "role u \<noteq> ''super_admin'' \<and> is_banned l"
  then have "update_fields link_data u l = Inl (HTTPException 403 msg_banned_cannot_enable)"
    using assms(3) by (simp add: update_fields_banned)
  with assms(1,2) a show "\<exists>e. update_link lid link_data u d = (Inl e, d) \<and> status_code e = 403"
    by (simp add: update_link_def)
next
  assume a: "role u \<noteq> ''super_admin'' \<and> is_banned l \<and> created_by l = user_id u"
  then have "update_fields link_data u l = Inl (HTTPException 403 msg_banned_cannot_enable)"
    using assms(3) by (simp add: update_fields_banned)
  with assms(1,2) a
  show "update_link lid link_data u d = (Inl (HTTPException 403 msg_banned_cannot_enable), d)"
    by (simp add: update_link_def)
qed

theorem update_link_enable_witness:
  "(\<exists>l'. update_link 1 enable super_admin \<lparr>links = [banned_link], access_logs = []\<rparr>
            = (Inr l', \<lparr>links = [l'], access_logs = []\<rparr>) \<and> \<not> is_banned l' \<and> is_active l')
   \<and> update_link 1 enable owner \<lparr>links = [banned_link], access_logs = []\<rparr>
       = (Inl (HTTPException 403 msg_banned_cannot_enable), \<lparr>links = [banned_link], access_logs = []\<rparr>)"
proof -
  let ?d = "\<lparr>links = [banned_link], access_logs = []\<rparr>"
  have f: "find (\<lambda>l. link_id l = 1) (links ?d) = Some banned_link"
    by (simp add: banned_link_def sample_link_def)
  have nd: "\<not> is_deleted banned_link" by (simp add: banned_link_def sample_link_def)
  have en: "upd_is_active enable = Some True" by (simp add: enable_def)
  have s: "role super_admin = ''super_admin''" by (simp add: super_admin_def)
  have o: "role owner \<noteq> ''super_admin'' \<and> is_banned banned_link \<and> created_by banned_link = user_id owner"
    by (simp add: owner_def banned_link_def sample_link_def)
  from update_link_enable [OF f nd en, of super_admin] s
  have 1: "\<exists>l'. update_link 1 enable super_admin ?d
            = (Inr l', \<lparr>links = [l'], access_logs = []\<rparr>) \<and> \<not> is_banned l' \<and> is_active l'"
    by (auto simp: banned_link_def sample_link_def)
  from update_link_enable [OF f nd en, of owner] o
  have 2: "update_link 1 enable owner ?d = (Inl (HTTPException 403 msg_banned_cannot_enable), ?d)"
    by blast
  from 1 2 show ?thesis by blast
qed

section \<open>Visit counters\<close>

lemma counters_le_refl: "counters_le l l"
  by (simp add: counters_le_def)

lemma counters_le_trans: "counters_le a b \<Longrightarrow> counters_le b c \<Longrightarrow> counters_le a c"
  by (auto simp: counters_le_def)

lemma grows_nth:
  "list_all2 counters_le xs (take (length xs) ys)
     = (length xs \<le> length ys \<and> (\<forall>i<length xs. counters_le (xs ! i) (ys ! i)))"
  by (auto simp: list_all2_conv_all_nth)

lemma counters_le_list_refl: "list_all2 counters_le xs xs"
  by (rule list_all2_refl) (rule counters_le_refl)

lemma grows_trans:
  assumes "list_all2 counters_le xs (take (length xs) ys)"
      and "list_all2 counters_le ys (take (length ys) zs)"
  shows "list_all2 counters_le xs (take (length xs) zs)"
  using assms unfolding grows_nth
  by (auto intro: counters_le_trans)

lemma grows_replace:
  "counters_le l l' \<Longrightarrow> list_all2 counters_le (ys @ l # zs) (take (length (ys @ l # zs)) (ys @ l' # zs))"
  by (simp add: list_all2_appendI counters_le_list_refl)

lemma row_step_write_back:
  assumes "find P xs = Some l" and "counters_le l l'" and "counters_ok l \<longrightarrow> counters_ok l'"
  shows "row_step xs (update_first P (\<lambda>_. l') xs)"
proof -
  from find_Some_split [OF assms(1), of "\<lambda>_. l'"] obtain ys zs where
    "xs = ys @ l # zs" "update_first P (\<lambda>_. l') xs = ys @ l' # zs" by blast
  with assms(2,3) show ?thesis unfolding row_step_def by blast
qed

lemma count_visit_le: "counters_le l (count_visit a l)"
  by (simp add: counters_le_def count_visit_counters)

lemma count_visit_ok: "counters_ok l \<Longrightarrow> counters_ok (count_visit a l)"
  by (simp add: counters_ok_def count_visit_counters)

lemma row_step_verify:
  "row_step (links d) (links (snd (verify_location fp code location req d)))"
proof (cases "find (\<lambda>l. short_code l = code) (links d)")
  case None
  then show ?thesis by (simp add: verify_location_def row_step_def)
next
  case (Some l)
  show ?thesis
  proof (cases "is_deleted l \<or> \<not> is_active l")
    case True
    with Some show ?thesis by (auto simp: verify_location_def row_step_def)
  next
    case False
    show ?thesis
    proof (cases "is_within_radius fp (latitude location) (longitude location)
                    (fl_float fp (center_lat l)) (fl_float fp (center_lng l))
                    (real_of_int (radius_meters l))")
      case (Inl e)
      with Some False show ?thesis by (simp add: verify_location_def row_step_def)
    next
      case (Inr verdict)
      with Some False show ?thesis
        by (cases verdict)
           (simp add: verify_location_def Let_def row_step_write_back count_visit_le
              count_visit_ok)
    qed
  qed
qed

lemma row_step_public_info: "row_step (links d) (links (snd (get_public_link_info code d)))"
  by (simp add: get_public_link_info_def row_step_def split: option.splits)

lemma row_step_update: "row_step (links d) (links (snd (update_link lid link_data u d)))"
proof (cases "update_link lid link_data u d")
  case (Pair r d')
  show ?thesis
  proof (cases r)
    case (Inl e)
    with Pair have "d' = d"
      by (auto simp: update_link_def split: option.splits if_splits sum.splits)
    with Pair show ?thesis by (simp add: row_step_def)
  next
    case (Inr l')
    with Pair obtain l where f: "find (\<lambda>l. link_id l = lid) (links d) = Some l"
      and u: "update_fields link_data u l = Inr l'"
      and d': "d' = d\<lparr>links := update_first (\<lambda>l. link_id l = lid) (\<lambda>_. l') (links d)\<rparr>"
      by (auto simp: update_link_def split: option.splits if_splits sum.splits)
    from update_fields_Inr(1-3) [OF u] have "counters_le l l'" "counters_ok l \<longrightarrow> counters_ok l'"
      by (simp_all add: counters_le_def counters_ok_def)
    with f have "row_step (links d) (update_first (\<lambda>l. link_id l = lid) (\<lambda>_. l') (links d))"
      by (rule row_step_write_back)
    with Pair d' show ?thesis by simp
  qed
qed

lemma row_step_delete: "row_step (links d) (links (snd (delete_link lid u d)))"
proof (cases "find (\<lambda>l. link_id l = lid) (links d)")
  case None
  then show ?thesis by (simp add: delete_link_def row_step_def)
next
  case (Some l)
  have "row_step (links d) (update_first (\<lambda>l. link_id l = lid) (\<lambda>_. l') (links d))"
    if "visit_count l' = visit_count l" "success_count l' = success_count l"
       "denied_count l' = denied_count l" for l'
    using Some by (rule row_step_write_back) (simp_all add: that counters_le_def counters_ok_def)
  with Some show ?thesis
    by (simp add: delete_link_def Let_def) (simp add: row_step_def)
qed

lemma row_step_restore: "row_step (links d) (links (snd (restore_link lid u d)))"
proof (cases "find (\<lambda>l. link_id l = lid) (links d)")
  case None
  then show ?thesis by (simp add: restore_link_def row_step_def)
next
  case (Some l)
  have "row_step (links d) (update_first (\<lambda>l. link_id l = lid) (\<lambda>_. l') (links d))"
    if "visit_count l' = visit_count l" "success_count l' = success_count l"
       "denied_count l' = denied_count l" for l'
    using Some by (rule row_step_write_back) (simp_all add: that counters_le_def counters_ok_def)
  with Some show ?thesis
    by (simp add: restore_link_def Let_def) (simp add: row_step_def)
qed

lemma row_step_create: "row_step (links d) (links (snd (create_link link_data u gen fresh_id d)))"
  by (simp add: create_link_def Let_def row_step_def counters_ok_def split: sum.splits)

lemma row_step_step: "row_step (links d) (links (step fp x d))"
  by (cases x)
     (simp_all add: row_step_verify row_step_public_info row_step_update row_step_delete
        row_step_restore row_step_create)

lemma row_step_ok: "row_step xs xs' \<Longrightarrow> list_all counters_ok xs \<Longrightarrow> list_all counters_ok xs'"
  unfolding row_step_def by auto

lemma row_step_grows: "row_step xs xs' \<Longrightarrow> list_all2 counters_le xs (take (length xs) xs')"
  unfolding row_step_def
  by (auto simp: counters_le_list_refl list_all2_appendI)

lemma run_ok: "list_all counters_ok (links d) \<Longrightarrow> list_all counters_ok (links (run fp ops d))"
proof (induction ops arbitrary: d)
  case Nil
  then show ?case by simp
next
  case (Cons x ops)
  from row_step_step Cons.prems have "list_all counters_ok (links (step fp x d))"
    by (rule row_step_ok)
  then show ?case by (simp add: Cons.IH)
qed

lemma run_grows: "list_all2 counters_le (links d) (take (length (links d)) (links (run fp ops d)))"
proof (induction ops arbitrary: d)
  case Nil
  show ?case by (simp add: counters_le_list_refl)
next
  case (Cons x ops)
  have "list_all2 counters_le (links d) (take (length (links d)) (links (step fp x d)))"
    using row_step_step by (rule row_step_grows)
  moreover have "list_all2 counters_le (links (step fp x d))
      (take (length (links (step fp x d))) (links (run fp ops (step fp x d))))"
    by (rule Cons.IH)
  ultimately show ?case by (simp add: grows_trans)
qed

text \<open>
  C4: a verification that is recorded (it returns a response) adds 1 to \<open>visit_count\<close> of its
  link, 1 to \<open>success_count\<close> when access was allowed and 1 to \<open>denied_count\<close> otherwise, and
  appends one log entry; over any sequence of requests to the endpoints, rows that satisfy
  \<open>success_count + denied_count = visit_count\<close> keep satisfying it, no counter of any row
  decreases, and every row of a store that started empty satisfies the invariant.
\<close>

theorem counters_invariant:
  "(\<forall>resp d'. verify_location fp code location req d = (Inr resp, d') \<longrightarrow>
      (\<exists>l l'. find (\<lambda>l. short_code l = code) (links d) = Some l
            \<and> find (\<lambda>l. short_code l = code) (links d') = Some l'
            \<and> visit_count l' = visit_count l + 1
            \<and> success_count l' = success_count l + (if resp_allowed resp then 1 else 0)
            \<and> denied_count l' = denied_count l + (if resp_allowed resp then 0 else 1)
            \<and> length (access_logs d') = length (access_logs d) + 1))
   \<and> (list_all counters_ok (links d) \<longrightarrow> list_all counters_ok (links (run fp ops d)))
   \<and> list_all2 counters_le (links d) (take (length (links d)) (links (run fp ops d)))
   \<and> list_all counters_ok (links (run fp ops \<lparr>links = [], access_logs = []\<rparr>))"
proof (intro conjI allI impI)
  fix resp d'
  assume v: "verify_location fp code location req d = (Inr resp, d')"
  from v obtain l where f: "find (\<lambda>l. short_code l = code) (links d) = Some l"
    and w: "links d' = update_first (\<lambda>l. short_code l = code)
                      (\<lambda>_. count_visit (resp_allowed resp) l) (links d)"
    and n: "length (access_logs d') = length (access_logs d) + 1"
    by (rule verify_location_Inr)
  from find_Some_split [OF f] have "short_code l = code" by blast
  with f w have "find (\<lambda>l. short_code l = code) (links d') = Some (count_visit (resp_allowed resp) l)"
    by (simp add: find_update_first count_visit_fields)
  with f n show "\<exists>l l'. find (\<lambda>l. short_code l = code) (links d) = Some l
            \<and> find (\<lambda>l. short_code l = code) (links d') = Some l'
            \<and> visit_count l' = visit_count l + 1
            \<and> success_count l' = success_count l + (if resp_allowed resp then 1 else 0)
            \<and> denied_count l' = denied_count l + (if resp_allowed resp then 0 else 1)
            \<and> length (access_logs d') = length (access_logs d) + 1"
    by (simp add: count_visit_counters)
next
  assume "list_all counters_ok (links d)"
  then show "list_all counters_ok (links (run fp ops d))" by (rule run_ok)
next
  show "list_all2 counters_le (links d) (take (length (links d)) (links (run fp ops d)))"
    by (rule run_grows)
next
  show "list_all counters_ok (links (run fp ops \<lparr>links = [], access_logs = []\<rparr>))"
    by (rule run_ok) simp
qed

section \<open>A visitor at the centre\<close>

text \<open>In an arithmetic that is exact at 0 and 1, a visitor at latitude 0, longitude 0 is at
  distance 0 from a link centred there and is admitted by every link that is active and not
  deleted.\<close>

lemma verify_location_at_centre:
  assumes "exact_at_zero fp"
    and "find (\<lambda>l. short_code l = code) (links d) = Some l"
    and "\<not> is_deleted l" and "is_active l"
    and "center_lat l = 0" and "center_lng l = 0" and "0 \<le> radius_meters l"
  shows "verify_location fp code at_centre req d =
    (Inr \<lparr>resp_allowed = True, resp_target_url = Some (target_url l),
          resp_distance = 0, resp_radius = radius_meters l, resp_message = None,
          resp_contact_wechat = None, resp_title = title l\<rparr>,
     d\<lparr>links := update_first (\<lambda>l. short_code l = code) (\<lambda>_. count_visit True l) (links d),
       access_logs := access_logs d @
         [\<lparr>log_link_id = link_id l, visitor_lat = Some 0, visitor_lng = Some 0,
           distance_meters = Some 0, access_granted = True,
           user_agent = req_user_agent req, ip_address = req_client_host req\<rparr>]\<rparr>)"
proof -
  from assms(1) have conv: "fl_float fp 0 = 0" "fl_round fp 0 2 = 0"
    unfolding exact_at_zero_def by blast+
  from assms(7) have "is_within_radius fp 0 0 0 0 (real_of_int (radius_meters l)) = Inr (True, 0)"
    by (simp add: is_within_radius_same_point [OF assms(1)])
  with assms(2-6) conv show ?thesis
    by (simp add: verify_location_def at_centre_def Let_def count_visit_fields)
qed

lemma verify_location_at_centre_sample:
  "verify_location exact_arith ''abc123'' at_centre sample_request sample_db =
  (Inr \<lparr>resp_allowed = True, resp_target_url = Some ''https://example.com/doc'',
        resp_distance = 0, resp_radius = 100, resp_message = None,
        resp_contact_wechat = None, resp_title = Some ''Office''\<rparr>,
   \<lparr>links = [sample_link\<lparr>visit_count := 1, success_count := 1\<rparr>],
    access_logs = [\<lparr>log_link_id = 1, visitor_lat = Some 0, visitor_lng = Some 0,
                    distance_meters = Some 0, access_granted = True,
                    user_agent = Some ''curl/8.0'', ip_address = Some ''10.0.0.7''\<rparr>]\<rparr>)"
proof -
  have "find (\<lambda>l. short_code l = ''abc123'') (links sample_db) = Some sample_link"
    by (simp add: sample_db_def sample_link_def)
  from verify_location_at_centre [OF exact_at_zero_exact_arith this, of sample_request]
  show ?thesis
    by (simp add: sample_db_def sample_link_def sample_request_def count_visit_def Let_def)
qed

lemma run_sample_ops:
  "links (run exact_arith sample_ops sample_db)
     = [sample_link\<lparr>visit_count := 2, success_count := 1, denied_count := 1\<rparr>]"
  by (simp add: sample_ops_def verify_location_at_centre_sample)
     (simp add: verify_location_def sample_link_def far_away_def sample_request_def
        exact_arith_conversions is_within_radius_opposite_meridian count_visit_def
        delete_link_def restore_link_def owner_def Let_def)

theorem counters_invariant_witness:
  "list_all counters_ok (links sample_db)
   \<and> list_all counters_ok (links (run exact_arith sample_ops sample_db))
   \<and> links (run exact_arith sample_ops sample_db)
       = [sample_link\<lparr>visit_count := 2, success_count := 1, denied_count := 1\<rparr>]
   \<and> (\<exists>l l'. find (\<lambda>l. short_code l = ''abc123'') (links sample_db) = Some l
          \<and> find (\<lambda>l. short_code l = ''abc123'')
               [sample_link\<lparr>visit_count := 1, success_count := 1\<rparr>] = Some l'
          \<and> visit_count l' = visit_count l + 1
          \<and> success_count l' = success_count l + 1
          \<and> denied_count l' = denied_count l)"
proof -
  note inv = counters_invariant
    [of exact_arith "''abc123''" at_centre sample_request sample_db sample_ops]
  have ok: "list_all counters_ok (links sample_db)"
    by (simp add: sample_db_def sample_link_def counters_ok_def)
  with inv have ok': "list_all counters_ok (links (run exact_arith sample_ops sample_db))" by blast
  note inv [THEN conjunct1, THEN spec, THEN spec, THEN mp, OF verify_location_at_centre_sample]
  then have "\<exists>l l'. find (\<lambda>l. short_code l = ''abc123'') (links sample_db) = Some l
          \<and> find (\<lambda>l. short_code l = ''abc123'')
               [sample_link\<lparr>visit_count := 1, success_count := 1\<rparr>] = Some l'
          \<and> visit_count l' = visit_count l + 1
          \<and> success_count l' = success_count l + 1
          \<and> denied_count l' = denied_count l"
    by (auto simp: sample_db_def sample_link_def)
  with ok ok' run_sample_ops show ?thesis by blast
qed

section \<open>Expiry time and visit cap\<close>

text \<open>
  C1: \<open>verify_location\<close> does not read \<open>expire_at\<close>. On an active link whose expiry time
  has passed, a visitor at the centre is admitted: the response carries the target URL, the
  counters are incremented and a log entry is appended. This holds in every arithmetic that
  is exact at 0 and 1.
\<close>

theorem verify_location_serves_expired_link:
  assumes "exact_at_zero fp"
  shows "expire_at expired_link = Some 1000 \<and> (1000::int) < 2000
   \<and> verify_location fp ''abc123'' at_centre sample_request
        \<lparr>links = [expired_link], access_logs = []\<rparr> =
  (Inr \<lparr>resp_allowed = True, resp_target_url = Some ''https://example.com/doc'',
        resp_distance = 0, resp_radius = 100, resp_message = None,
        resp_contact_wechat = None, resp_title = Some ''Office''\<rparr>,
   \<lparr>links = [expired_link\<lparr>visit_count := 1, success_count := 1\<rparr>],
    access_logs = [\<lparr>log_link_id = 1, visitor_lat = Some 0, visitor_lng = Some 0,
                    distance_meters = Some 0, access_granted = True,
                    user_agent = Some ''curl/8.0'', ip_address = Some ''10.0.0.7''\<rparr>]\<rparr>)"
proof -
  have "find (\<lambda>l. short_code l = ''abc123'') (links \<lparr>links = [expired_link], access_logs = []\<rparr>)
          = Some expired_link"
    by (simp add: expired_link_def sample_link_def)
  from verify_location_at_centre [OF assms this, of sample_request]
  show ?thesis
    by (simp add: expired_link_def sample_link_def sample_request_def count_visit_def Let_def)
qed

theorem verify_location_serves_expired_link_witness:
  "verify_location exact_arith ''abc123'' at_centre sample_request
        \<lparr>links = [expired_link], access_logs = []\<rparr> =
  (Inr \<lparr>resp_allowed = True, resp_target_url = Some ''https://example.com/doc'',
        resp_distance = 0, resp_radius = 100, resp_message = None,
        resp_contact_wechat = None, resp_title = Some ''Office''\<rparr>,
   \<lparr>links = [expired_link\<lparr>visit_count := 1, success_count := 1\<rparr>],
    access_logs = [\<lparr>log_link_id = 1, visitor_lat = Some 0, visitor_lng = Some 0,
                    distance_meters = Some 0, access_granted = True,
                    user_agent = Some ''curl/8.0'', ip_address = Some ''10.0.0.7''\<rparr>]\<rparr>)"
  using verify_location_serves_expired_link [OF exact_at_zero_exact_arith] by blast

text \<open>
  C2: \<open>verify_location\<close> does not read \<open>max_visits\<close>. On an active link with
  \<open>max_visits = 5\<close> and \<open>visit_count = 5\<close>, a visitor at the centre is admitted and
  \<open>visit_count\<close> becomes 6. This holds in every arithmetic that is exact at 0 and 1.
\<close>

theorem verify_location_serves_capped_link:
  assumes "exact_at_zero fp"
  shows "max_visits capped_link = Some 5 \<and> visit_count capped_link = 5 \<and> is_active capped_link
   \<and> \<not> is_deleted capped_link
   \<and> verify_location fp ''abc123'' at_centre sample_request
        \<lparr>links = [capped_link], access_logs = []\<rparr> =
  (Inr \<lparr>resp_allowed = True, resp_target_url = Some ''https://example.com/doc'',
        resp_distance = 0, resp_radius = 100, resp_message = None,
        resp_contact_wechat = None, resp_title = Some ''Office''\<rparr>,
   \<lparr>links = [capped_link\<lparr>visit_count := 6, success_count := 6\<rparr>],
    access_logs = [\<lparr>log_link_id = 1, visitor_lat = Some 0, visitor_lng = Some 0,
                    distance_meters = Some 0, access_granted = True,
                    user_agent = Some ''curl/8.0'', ip_address = Some ''10.0.0.7''\<rparr>]\<rparr>)"
proof -
  have "find (\<lambda>l. short_code l = ''abc123'') (links \<lparr>links = [capped_link], access_logs = []\<rparr>)
          = Some capped_link"
    by (simp add: capped_link_def sample_link_def)
  from verify_location_at_centre [OF assms this, of sample_request]
  show ?thesis
    by (simp add: capped_link_def sample_link_def sample_request_def count_visit_def Let_def)
qed

theorem verify_location_serves_capped_link_witness:
  "verify_location exact_arith ''abc123'' at_centre sample_request
        \<lparr>links = [capped_link], access_logs = []\<rparr> =
  (Inr \<lparr>resp_allowed = True, resp_target_url = Some ''https://example.com/doc'',
        resp_distance = 0, resp_radius = 100, resp_message = None,
        resp_contact_wechat = None, resp_title = Some ''Office''\<rparr>,
   \<lparr>links = [capped_link\<lparr>visit_count := 6, success_count := 6\<rparr>],
    access_logs = [\<lparr>log_link_id = 1, visitor_lat = Some 0, visitor_lng = Some 0,
                    distance_meters = Some 0, access_granted = True,
                    user_agent = Some ''curl/8.0'', ip_address = Some ''10.0.0.7''\<rparr>]\<rparr>)"
  using verify_location_serves_capped_link [OF exact_at_zero_exact_arith] by blast

section \<open>Restoring a deleted link\<close>

text \<open>\<open>restore_link\<close> on a deleted link, by the super administrator or the owner, clears
  \<open>is_deleted\<close>, sets \<open>is_active\<close> and keeps \<open>is_banned\<close>.\<close>

lemma restore_link_flags:
  assumes "find (\<lambda>l. link_id l = lid) (links d) = Some l" and "is_deleted l"
      and "role u = ''super_admin'' \<or> created_by l = user_id u"
  shows "restore_link lid u d
           = (Inr (l\<lparr>is_deleted := False, is_active := True\<rparr>),
              d\<lparr>links := update_first (\<lambda>l. link_id l = lid)
                     (\<lambda>_. l\<lparr>is_deleted := False, is_active := True\<rparr>) (links d)\<rparr>)"
    and "is_banned (l\<lparr>is_deleted := False, is_active := True\<rparr>) = is_banned l"
  using assms by (auto simp: restore_link_def Let_def)

lemma run_ban: "run fp [Delete 1 super_admin] sample_db = \<lparr>links = [banned_link], access_logs = []\<rparr>"
  by (simp add: sample_db_def sample_link_def banned_link_def delete_link_def super_admin_def
      Let_def)

lemma run_ban_delete_restore:
  "run fp ban_delete_restore sample_db
     = \<lparr>links = [sample_link\<lparr>is_banned := True\<rparr>], access_logs = []\<rparr>"
  by (simp add: ban_delete_restore_def sample_db_def sample_link_def delete_link_def
      restore_link_def owner_def super_admin_def Let_def)

text \<open>
  C3: after the super administrator has banned the owner's link, \<open>verify_location\<close> raises
  403; once the owner has deleted and restored the link it is still banned, but active, and
  \<open>verify_location\<close> admits the visitor and returns the target URL. This holds in every
  arithmetic that is exact at 0 and 1.
\<close>

theorem restore_reopens_banned_link:
  assumes "exact_at_zero fp"
  shows "links (run fp [Delete 1 super_admin] sample_db) = [banned_link]
   \<and> fst (verify_location fp ''abc123'' at_centre sample_request
            (run fp [Delete 1 super_admin] sample_db))
       = Inl (Http (HTTPException 403 msg_link_banned))
   \<and> links (run fp ban_delete_restore sample_db) = [sample_link\<lparr>is_banned := True\<rparr>]
   \<and> fst (verify_location fp ''abc123'' at_centre sample_request
            (run fp ban_delete_restore sample_db))
       = Inr \<lparr>resp_allowed = True, resp_target_url = Some ''https://example.com/doc'',
              resp_distance = 0, resp_radius = 100, resp_message = None,
              resp_contact_wechat = None, resp_title = Some ''Office''\<rparr>"
proof -
  have banned: "fst (verify_location fp ''abc123'' at_centre sample_request
                  \<lparr>links = [banned_link], access_logs = []\<rparr>)
                = Inl (Http (HTTPException 403 msg_link_banned))"
    by (simp add: verify_location_def banned_link_def sample_link_def)
  have "find (\<lambda>l. short_code l = ''abc123'')
          (links \<lparr>links = [sample_link\<lparr>is_banned := True\<rparr>], access_logs = []\<rparr>)
          = Some (sample_link\<lparr>is_banned := True\<rparr>)"
    by (simp add: sample_link_def)
  from verify_location_at_centre [OF assms this, of sample_request]
  have restored: "fst (verify_location fp ''abc123'' at_centre sample_request
                    \<lparr>links = [sample_link\<lparr>is_banned := True\<rparr>], access_logs = []\<rparr>)
       = Inr \<lparr>resp_allowed = True, resp_target_url = Some ''https://example.com/doc'',
              resp_distance = 0, resp_radius = 100, resp_message = None,
              resp_contact_wechat = None, resp_title = Some ''Office''\<rparr>"
    by (simp add: sample_link_def)
  from banned restored show ?thesis
    by (simp only: run_ban run_ban_delete_restore) simp
qed

theorem restore_reopens_banned_link_witness:
  "links (run exact_arith [Delete 1 super_admin] sample_db) = [banned_link]
   \<and> fst (verify_location exact_arith ''abc123'' at_centre sample_request
            (run exact_arith [Delete 1 super_admin] sample_db))
       = Inl (Http (HTTPException 403 msg_link_banned))
   \<and> links (run exact_arith ban_delete_restore sample_db) = [sample_link\<lparr>is_banned := True\<rparr>]
   \<and> fst (verify_location exact_arith ''abc123'' at_centre sample_request
            (run exact_arith ban_delete_restore sample_db))
       = Inr \<lparr>resp_allowed = True, resp_target_url = Some ''https://example.com/doc'',
              resp_distance = 0, resp_radius = 100, resp_message = None,
              resp_contact_wechat = None, resp_title = Some ''Office''\<rparr>"
  using restore_reopens_banned_link [OF exact_at_zero_exact_arith] by blast

end
